theory Spec2Isabelle
  imports Main "HOL-Library.Word"
begin

section \<open>The lazy-tensor IR core (torch/csrc/lazy/core/ir.cpp)\<close>

subsection \<open>Data\<close>

text \<open>
  \<open>hash_t\<close> is a 128-bit unsigned value, \<open>size_t\<close> a 64-bit one. A \<open>Node\<close> object
  lives at an address; a raw \<open>const Node*\<close> and a \<open>NodePtr\<close> (a shared handle) both
  denote an address, and the store maps the addresses of live objects to their contents.
  Reading through an address that holds no live object has no defined result.
\<close>

type_synonym hash_t = "128 word"
type_synonym size_t = "64 word"
type_synonym NodePtr = nat

datatype OpKind = Symbol string

text \<open>
  Modelled from the spec: the debug metadata (its declaration is in
  \<^verbatim>\<open>ir_metadata.h\<close>, which is not part of the sources at hand) is a scope string
  and source-frame information.
\<close>

record MetaData =
  scope :: string
  frame_info :: "string list"

record Node =
  op :: OpKind
  num_outputs :: size_t
  node_hash :: hash_t
  dag_hash_without_sizes :: hash_t
  dag_hash_with_sizes :: hash_t
  metadata :: MetaData
  node_list_index :: size_t

type_synonym store = "NodePtr \<rightharpoonup> Node"

datatype Output = Output NodePtr size_t

datatype Value = Value NodePtr size_t

subsection \<open>Process-wide state\<close>

text \<open>
  The process environment, the command-line flag \<open>FLAGS_ltc_enable_dynamic_shapes\<close>
  (default false), the function-local static \<open>enabled\<close> of \<open>enableDynamicShape\<close>
  (\<open>None\<close> until the first call initialises it) and the two static node vectors.
\<close>

record lazy_state =
  environ :: "string \<rightharpoonup> string"
  FLAGS_ltc_enable_dynamic_shapes :: bool
  enabled :: "bool option"
  node_list :: "NodePtr list"
  last_node_list :: "NodePtr list"

definition getenv :: "lazy_state \<Rightarrow> string \<Rightarrow> string option" where
  "getenv s name = environ s name"

definition process_start :: "(string \<rightharpoonup> string) \<Rightarrow> lazy_state" where
  "process_start e =
     \<lparr>environ = e, FLAGS_ltc_enable_dynamic_shapes = False, enabled = None,
      node_list = [], last_node_list = []\<rparr>"

subsection \<open>Dynamic-shape mode\<close>

text \<open>
  \<^verbatim>\<open>static bool enabled = std::getenv("LTC_ENABLE_DYNAMIC_SHAPES") != nullptr;
  return enabled || FLAGS_ltc_enable_dynamic_shapes;\<close>
  The static is initialised by the first call only.
\<close>

definition enableDynamicShape :: "lazy_state \<Rightarrow> bool \<times> lazy_state" where
  "enableDynamicShape s =
     (let e = (case enabled s of
                 None \<Rightarrow> getenv s ''LTC_ENABLE_DYNAMIC_SHAPES'' \<noteq> None
               | Some b \<Rightarrow> b)
      in (e \<or> FLAGS_ltc_enable_dynamic_shapes s, s\<lparr>enabled := Some e\<rparr>))"

subsection \<open>The node list\<close>

definition NextNodeListIndex :: "lazy_state \<Rightarrow> size_t" where
  "NextNodeListIndex s = of_nat (length (node_list s))"

definition PushIntoNodeList :: "NodePtr \<Rightarrow> lazy_state \<Rightarrow> lazy_state" where
  "PushIntoNodeList node s = s\<lparr>node_list := node_list s @ [node]\<rparr>"

text \<open>\<^verbatim>\<open>last_node_list.clear(); std::swap(last_node_list, node_list);\<close>\<close>

definition ClearNodeList :: "lazy_state \<Rightarrow> lazy_state" where
  "ClearNodeList s =
     (let s1 = s\<lparr>last_node_list := []\<rparr>
      in s1\<lparr>last_node_list := node_list s1, node_list := last_node_list s1\<rparr>)"

subsection \<open>Node construction\<close>

text \<open>
  Both constructors take the metadata that \<open>GetMetaDataIfDebugging()\<close> returns at the
  time of the call as the argument \<open>md\<close>. The body of each constructor is empty: the
  members are initialised and nothing else happens. The hash callbacks are pure
  functions of their flag.
\<close>

definition Node_explicit ::
  "OpKind \<Rightarrow> size_t \<Rightarrow> hash_t \<Rightarrow> (bool \<Rightarrow> hash_t) \<Rightarrow> MetaData \<Rightarrow> lazy_state
     \<Rightarrow> Node \<times> lazy_state" where
  "Node_explicit op' num_outputs' node_hash' dag_hash_fn md s =
     (\<lparr>op = op',
       num_outputs = num_outputs',
       node_hash = node_hash',
       dag_hash_without_sizes = dag_hash_fn False,
       dag_hash_with_sizes = dag_hash_fn True,
       metadata = md,
       node_list_index = NextNodeListIndex s\<rparr>, s)"

definition Node_derived ::
  "OpKind \<Rightarrow> size_t \<Rightarrow> (bool \<Rightarrow> hash_t) \<Rightarrow> MetaData \<Rightarrow> lazy_state
     \<Rightarrow> Node \<times> lazy_state" where
  "Node_derived op' num_outputs' node_hash_fn md s =
     (let (dyn, s1) = enableDynamicShape s
      in (\<lparr>op = op',
           num_outputs = num_outputs',
           node_hash = node_hash_fn (\<not> dyn),
           dag_hash_without_sizes = node_hash_fn False,
           dag_hash_with_sizes = node_hash_fn True,
           metadata = md,
           node_list_index = NextNodeListIndex s1\<rparr>, s1))"

text \<open>
  A construction request: the arguments of one of the two constructors, with the
  metadata captured at that moment.
\<close>

datatype ctor_args =
  Explicit OpKind size_t hash_t "bool \<Rightarrow> hash_t" MetaData
| Derived OpKind size_t "bool \<Rightarrow> hash_t" MetaData

fun construct :: "ctor_args \<Rightarrow> lazy_state \<Rightarrow> Node \<times> lazy_state" where
  "construct (Explicit o' n h f md) s = Node_explicit o' n h f md s"
| "construct (Derived o' n f md) s = Node_derived o' n f md s"

text \<open>
  A tracing client that builds nodes one after the other: each request is given with the
  address at which the new object is placed; the object is constructed and its handle is
  then handed to \<open>PushIntoNodeList\<close>, before the next construction starts. The
  constructed nodes are returned in construction order.
\<close>

fun construct_and_push ::
  "(ctor_args \<times> NodePtr) list \<Rightarrow> lazy_state \<Rightarrow> Node list \<times> lazy_state" where
  "construct_and_push [] s = ([], s)"
| "construct_and_push ((a, p) # rest) s =
     (let (n, s1) = construct a s;
          s2 = PushIntoNodeList p s1;
          (ns, s3) = construct_and_push rest s2
      in (n # ns, s3))"

text \<open>The same client when it only runs the constructors.\<close>

fun construct_only :: "ctor_args list \<Rightarrow> lazy_state \<Rightarrow> Node list \<times> lazy_state" where
  "construct_only [] s = ([], s)"
| "construct_only (a # rest) s =
     (let (n, s1) = construct a s;
          (ns, s2) = construct_only rest s1
      in (n # ns, s2))"

subsection \<open>What can happen in the process between two calls\<close>

datatype event =
  Setenv string string
| Unsetenv string
| SetFlag bool
| CallEnableDynamicShape
| Construct ctor_args
| Push NodePtr
| Clear

fun apply_event :: "event \<Rightarrow> lazy_state \<Rightarrow> lazy_state" where
  "apply_event (Setenv name v) s = s\<lparr>environ := (environ s)(name \<mapsto> v)\<rparr>"
| "apply_event (Unsetenv name) s = s\<lparr>environ := (environ s)(name := None)\<rparr>"
| "apply_event (SetFlag b) s = s\<lparr>FLAGS_ltc_enable_dynamic_shapes := b\<rparr>"
| "apply_event CallEnableDynamicShape s = snd (enableDynamicShape s)"
| "apply_event (Construct a) s = snd (construct a s)"
| "apply_event (Push p) s = PushIntoNodeList p s"
| "apply_event Clear s = ClearNodeList s"

fun run :: "event list \<Rightarrow> lazy_state \<Rightarrow> lazy_state" where
  "run [] s = s"
| "run (e # es) s = run es (apply_event e s)"

subsection \<open>Edges: Output and Value\<close>

text \<open>
  \<open>HashCombine\<close> and \<open>Hash\<close> (hash.h) and the accessor \<open>Node::hash()\<close> (ir.h) are
  declared outside the sources at hand; the edge operations take them as parameters.
  \<open>Node_hash n\<close> stands for what \<open>hash()\<close> returns for the node \<open>n\<close> at the moment of
  the call.
\<close>

fun Output_hash ::
  "(hash_t \<Rightarrow> hash_t \<Rightarrow> hash_t) \<Rightarrow> (size_t \<Rightarrow> hash_t) \<Rightarrow> (Node \<Rightarrow> hash_t)
     \<Rightarrow> store \<Rightarrow> Output \<Rightarrow> hash_t option" where
  "Output_hash HashCombine Hash Node_hash st (Output node index) =
     (case st node of
        None \<Rightarrow> None
      | Some n \<Rightarrow> Some (HashCombine (Node_hash n) (Hash index)))"

fun Value_hash ::
  "(hash_t \<Rightarrow> hash_t \<Rightarrow> hash_t) \<Rightarrow> (size_t \<Rightarrow> hash_t) \<Rightarrow> (Node \<Rightarrow> hash_t)
     \<Rightarrow> store \<Rightarrow> Value \<Rightarrow> hash_t option" where
  "Value_hash HashCombine Hash Node_hash st (Value node index) =
     (case st node of
        None \<Rightarrow> None
      | Some n \<Rightarrow> Some (HashCombine (Node_hash n) (Hash index)))"

text \<open>
  \<open>Output::operator==(const Value&)\<close> prints one line (the two node hashes and the two
  indices) and then executes \<^verbatim>\<open>return false;\<close>. The statement after it,
  \<^verbatim>\<open>return node->hash() == rhs.node()->hash() && index == rhs.index;\<close>,
  is never reached. The result is the printed line with the returned value.
\<close>

datatype printed = Printf_Output_eq hash_t hash_t size_t size_t

fun Output_eq ::
  "(Node \<Rightarrow> hash_t) \<Rightarrow> store \<Rightarrow> Output \<Rightarrow> Value \<Rightarrow> (printed \<times> bool) option" where
  "Output_eq Node_hash st (Output node index) (Value rhs_node rhs_index) =
     (case st node of
        None \<Rightarrow> None
      | Some n \<Rightarrow>
          (case st rhs_node of
             None \<Rightarrow> None
           | Some m \<Rightarrow>
               Some (Printf_Output_eq (Node_hash n) (Node_hash m) index rhs_index, False)))"

text \<open>The comparison that the unreached statement computes.\<close>

fun Output_eq_unreached :: "(Node \<Rightarrow> hash_t) \<Rightarrow> store \<Rightarrow> Output \<Rightarrow> Value \<Rightarrow> bool option" where
  "Output_eq_unreached Node_hash st (Output node index) (Value rhs_node rhs_index) =
     (case st node of
        None \<Rightarrow> None
      | Some n \<Rightarrow>
          (case st rhs_node of
             None \<Rightarrow> None
           | Some m \<Rightarrow> Some (Node_hash n = Node_hash m \<and> index = rhs_index)))"

subsection \<open>Example inputs\<close>

definition no_metadata :: MetaData where
  "no_metadata = \<lparr>scope = [], frame_info = []\<rparr>"

definition sized_hash_fn :: "bool \<Rightarrow> hash_t" where
  "sized_hash_fn bake_in_sizes = (if bake_in_sizes then 1 else 0)"

definition node_A :: Node where
  "node_A = fst (Node_explicit (Symbol ''add'') 1 17 (\<lambda>_. 17) no_metadata
                   (process_start Map.empty))"

definition node_B :: Node where
  "node_B = fst (Node_explicit (Symbol ''add'') 1 17 (\<lambda>_. 17) no_metadata
                   (PushIntoNodeList 1 (process_start Map.empty)))"

definition store_AB :: store where
  "store_AB = [1 \<mapsto> node_A, 2 \<mapsto> node_B]"

section \<open>Nested flash-attention backward (NestedTensorTransformerFunctionsBackward.cpp)\<close>

text \<open>
  A tensor handle is undefined or refers to an implementation object. The 64-bit
  integers are words; a \<open>double\<close> is only handed on, so it is kept as its 64-bit pattern.
\<close>

datatype Tensor = UndefinedTensor | TensorImpl nat

fun defined :: "Tensor \<Rightarrow> bool" where
  "defined UndefinedTensor = False"
| "defined (TensorImpl _) = True"

type_synonym int64_t = "64 word"
type_synonym double = "64 word"

datatype exn = Exception string

text \<open>
  The three functions the entry point calls are only declared in the sources at hand
  (NestedTensorTransformerUtils.h, and the dispatcher's \<open>at::_flash_attention_backward\<close>):
  they are parameters of the model. Each returns its result or throws. The entry point's
  result comes with the list of the calls it made, in order, each with its arguments.
\<close>

type_synonym preprocessing_backward_fn =
  "Tensor \<Rightarrow> Tensor \<Rightarrow> Tensor \<Rightarrow> Tensor \<Rightarrow> Tensor \<Rightarrow> Tensor \<Rightarrow> Tensor \<Rightarrow> int64_t \<Rightarrow> int64_t
     \<Rightarrow> exn + (Tensor \<times> Tensor \<times> Tensor \<times> Tensor \<times> Tensor)"

type_synonym flash_attention_backward_fn =
  "Tensor \<Rightarrow> Tensor \<Rightarrow> Tensor \<Rightarrow> Tensor \<Rightarrow> Tensor \<Rightarrow> Tensor \<Rightarrow> Tensor \<Rightarrow> Tensor \<Rightarrow> int64_t \<Rightarrow> int64_t
     \<Rightarrow> double \<Rightarrow> bool \<Rightarrow> int64_t \<Rightarrow> int64_t \<Rightarrow> double option
     \<Rightarrow> exn + (Tensor \<times> Tensor \<times> Tensor)"

type_synonym postprocessing_backward_fn =
  "Tensor \<Rightarrow> Tensor \<Rightarrow> Tensor \<Rightarrow> Tensor \<Rightarrow> Tensor \<Rightarrow> Tensor
     \<Rightarrow> exn + (Tensor \<times> Tensor \<times> Tensor)"

datatype call =
  Call_sdpa_nested_preprocessing_backward
    Tensor Tensor Tensor Tensor Tensor Tensor Tensor int64_t int64_t
| Call_flash_attention_backward
    Tensor Tensor Tensor Tensor Tensor Tensor Tensor Tensor int64_t int64_t
    double bool int64_t int64_t "double option"
| Call_sdpa_nested_postprocessing_backward
    Tensor Tensor Tensor Tensor Tensor Tensor

fun is_preprocessing_call :: "call \<Rightarrow> bool" where
  "is_preprocessing_call (Call_sdpa_nested_preprocessing_backward _ _ _ _ _ _ _ _ _) = True"
| "is_preprocessing_call _ = False"

fun is_kernel_call :: "call \<Rightarrow> bool" where
  "is_kernel_call (Call_flash_attention_backward _ _ _ _ _ _ _ _ _ _ _ _ _ _ _) = True"
| "is_kernel_call _ = False"

definition scaled_dot_product_flash_attention_backward_nested ::
  "preprocessing_backward_fn \<Rightarrow> flash_attention_backward_fn \<Rightarrow> postprocessing_backward_fn
     \<Rightarrow> Tensor \<Rightarrow> Tensor \<Rightarrow> Tensor \<Rightarrow> Tensor \<Rightarrow> Tensor \<Rightarrow> Tensor \<Rightarrow> Tensor \<Rightarrow> Tensor
     \<Rightarrow> int64_t \<Rightarrow> int64_t \<Rightarrow> double \<Rightarrow> bool \<Rightarrow> int64_t \<Rightarrow> int64_t \<Rightarrow> double option
     \<Rightarrow> call list \<times> (exn + (Tensor \<times> Tensor \<times> Tensor))" where
  "scaled_dot_product_flash_attention_backward_nested
     sdpa_nested_preprocessing_backward flash_attention_backward
     sdpa_nested_postprocessing_backward
     grad_out query key val out logsumexp
     cumulative_sequence_length_q cumulative_sequence_length_k
     max_seqlen_batch_q max_seqlen_batch_k dropout_p is_causal
     philox_seed philox_offset scale =
   (if \<not> defined grad_out then
      ([], Inr (UndefinedTensor, UndefinedTensor, UndefinedTensor))
    else
      let c1 = Call_sdpa_nested_preprocessing_backward grad_out query key val out
                 cumulative_sequence_length_q cumulative_sequence_length_k
                 max_seqlen_batch_q max_seqlen_batch_k
      in
      case sdpa_nested_preprocessing_backward grad_out query key val out
             cumulative_sequence_length_q cumulative_sequence_length_k
             max_seqlen_batch_q max_seqlen_batch_k of
        Inl e \<Rightarrow> ([c1], Inl e)
      | Inr (grad_out_buffer_reshaped, query_buffer_reshaped, key_buffer_reshaped,
             value_buffer_reshaped, output_buffer_reshaped) \<Rightarrow>
          let c2 = Call_flash_attention_backward
                     grad_out_buffer_reshaped query_buffer_reshaped key_buffer_reshaped
                     value_buffer_reshaped output_buffer_reshaped logsumexp
                     cumulative_sequence_length_q cumulative_sequence_length_k
                     max_seqlen_batch_q max_seqlen_batch_k dropout_p is_causal
                     philox_seed philox_offset scale
          in
          case flash_attention_backward
                 grad_out_buffer_reshaped query_buffer_reshaped key_buffer_reshaped
                 value_buffer_reshaped output_buffer_reshaped logsumexp
                 cumulative_sequence_length_q cumulative_sequence_length_k
                 max_seqlen_batch_q max_seqlen_batch_k dropout_p is_causal
                 philox_seed philox_offset scale of
            Inl e \<Rightarrow> ([c1, c2], Inl e)
          | Inr (grad_q, grad_k, grad_v) \<Rightarrow>
              ([c1, c2,
                Call_sdpa_nested_postprocessing_backward query key val grad_q grad_k grad_v],
               sdpa_nested_postprocessing_backward query key val grad_q grad_k grad_v))"

text \<open>Stand-ins for the three callees, used to run the entry point on examples.\<close>

definition pack_stub :: preprocessing_backward_fn where
  "pack_stub g q k v out cq ck mq mk =
     Inr (TensorImpl 10, TensorImpl 11, TensorImpl 12, TensorImpl 13, TensorImpl 14)"

definition kernel_stub :: flash_attention_backward_fn where
  "kernel_stub g q k v out lse cq ck mq mk p c seed off sc =
     Inr (TensorImpl 20, TensorImpl 21, TensorImpl 22)"

definition unpack_stub :: postprocessing_backward_fn where
  "unpack_stub q k v gq gk gv = Inr (TensorImpl 30, TensorImpl 31, TensorImpl 32)"

text \<open>
  A kernel stand-in that returns gradients only when it is applied to one particular
  argument list and throws otherwise, and a postprocessing stand-in that hands the three
  dense gradients back: with them the entry point's result shows what the kernel was
  applied to.
\<close>

definition strict_kernel_stub :: flash_attention_backward_fn where
  "strict_kernel_stub g q k v out lse cq ck mq mk p c seed off sc =
     (if g = TensorImpl 10 \<and> q = TensorImpl 11 \<and> k = TensorImpl 12 \<and> v = TensorImpl 13
         \<and> out = TensorImpl 14 \<and> lse = TensorImpl 6 \<and> cq = TensorImpl 7
         \<and> ck = TensorImpl 8 \<and> mq = 9 \<and> mk = 10 \<and> p = 11 \<and> c \<and> seed = 12
         \<and> off = 13 \<and> sc = Some 14
      then Inr (TensorImpl 20, TensorImpl 21, TensorImpl 22)
      else Inl (Exception ''unexpected argument''))"

definition unpack_echo :: postprocessing_backward_fn where
  "unpack_echo q k v gq gk gv = Inr (gq, gk, gv)"

section \<open>Facts about the dynamic-shape switch and the constructors\<close>

lemma enableDynamicShape_enabled:
  "enabled (snd (enableDynamicShape s)) =
     Some (case enabled s of
             None \<Rightarrow> environ s ''LTC_ENABLE_DYNAMIC_SHAPES'' \<noteq> None
           | Some b \<Rightarrow> b)"
  by (simp add: enableDynamicShape_def getenv_def Let_def split: option.splits)

lemma enableDynamicShape_keeps_enabled:
  "enabled s = Some b \<Longrightarrow> enabled (snd (enableDynamicShape s)) = Some b"
  by (simp add: enableDynamicShape_def Let_def)

lemma enableDynamicShape_result:
  "enabled s = Some b \<Longrightarrow>
     fst (enableDynamicShape s) = (b \<or> FLAGS_ltc_enable_dynamic_shapes s)"
  by (simp add: enableDynamicShape_def Let_def)

lemma construct_keeps_enabled:
  "enabled s = Some b \<Longrightarrow> enabled (snd (construct a s)) = Some b"
  by (cases a)
     (simp_all add: Node_explicit_def Node_derived_def enableDynamicShape_def Let_def)

lemma apply_event_keeps_enabled:
  "enabled s = Some b \<Longrightarrow> enabled (apply_event e s) = Some b"
  by (cases e)
     (simp_all add: enableDynamicShape_keeps_enabled construct_keeps_enabled
        PushIntoNodeList_def ClearNodeList_def Let_def)

lemma run_keeps_enabled:
  "enabled s = Some b \<Longrightarrow> enabled (run es s) = Some b"
  by (induction es arbitrary: s) (simp_all add: apply_event_keeps_enabled)

lemma construct_node_list:
  "node_list (snd (construct a s)) = node_list s"
  by (cases a)
     (simp_all add: Node_explicit_def Node_derived_def enableDynamicShape_def Let_def)

lemma construct_index:
  "node_list_index (fst (construct a s)) = of_nat (length (node_list s))"
  by (cases a)
     (simp_all add: Node_explicit_def Node_derived_def NextNodeListIndex_def
        enableDynamicShape_def Let_def)

lemma construct_and_push_trace:
  "map node_list_index (fst (construct_and_push reqs s))
     = map of_nat [length (node_list s) ..< length (node_list s) + length reqs]
   \<and> node_list (snd (construct_and_push reqs s)) = node_list s @ map snd reqs"
proof (induction reqs arbitrary: s)
  case Nil
  show ?case by simp
next
  case (Cons r reqs)
  obtain a p where r: "r = (a, p)" by (cases r)
  obtain n s1 where c: "construct a s = (n, s1)" by (cases "construct a s")
  have nl: "node_list s1 = node_list s"
    using construct_node_list [of a s] c by simp
  have idx: "node_list_index n = of_nat (length (node_list s))"
    using construct_index [of a s] c by simp
  let ?s2 = "PushIntoNodeList p s1"
  have nl2: "node_list ?s2 = node_list s @ [p]"
    by (simp add: PushIntoNodeList_def nl)
  obtain ns s3 where rec: "construct_and_push reqs ?s2 = (ns, s3)"
    by (cases "construct_and_push reqs ?s2")
  from Cons.IH [of ?s2] rec nl2
  have ih1: "map node_list_index ns
      = map of_nat [Suc (length (node_list s)) ..< Suc (length (node_list s)) + length reqs]"
    and ih2: "node_list s3 = node_list s @ p # map snd reqs"
    by simp_all
  have whole: "construct_and_push (r # reqs) s = (n # ns, s3)"
    by (simp add: r c rec)
  have "[length (node_list s) ..< length (node_list s) + length (r # reqs)]
      = length (node_list s)
          # [Suc (length (node_list s)) ..< Suc (length (node_list s)) + length reqs]"
    by (simp add: upt_rec)
  with ih1 ih2 idx whole r show ?case by simp
qed

lemma unat_of_nat_upt:
  "n \<le> 2 ^ 64 \<Longrightarrow> map unat (map of_nat [0..<n] :: size_t list) = [0..<n]"
proof -
  assume n: "n \<le> 2 ^ 64"
  have "\<forall>k \<in> set [0..<n]. unat (of_nat k :: size_t) = k"
  proof
    fix k assume "k \<in> set [0..<n]"
    then have "k < 2 ^ 64" using n by simp
    then show "unat (of_nat k :: size_t) = k"
      by (simp add: unat_of_nat)
  qed
  then have "map (\<lambda>k. unat (of_nat k :: size_t)) [0..<n] = map (\<lambda>k. k) [0..<n]"
    by (intro map_cong) simp_all
  then show ?thesis by (simp add: comp_def)
qed

section \<open>Equality of an Output and a Value\<close>

lemma Output_eq_never_true:
  "Output_eq Node_hash st ou v \<noteq> Some (line, True)"
  by (cases ou; cases v) (simp split: option.splits)

text \<open>
  C1. The comparison \<open>o == v\<close> is meant to hold exactly when the two referenced nodes
  have the same content hash and the indices agree. Nodes \<open>node_A\<close> and \<open>node_B\<close> are built
  independently with the same op, output count and hash 17 and live at the addresses 1
  and 2. The unreached statement of the operator gives true for \<open>Output{&A,0}\<close> against
  \<open>Value{B,0}\<close>, and the operator as written prints the two equal hashes and returns false.
\<close>

theorem Output_eq_returns_false_on_equal_hashes:
  "node_hash node_A = node_hash node_B
   \<and> op node_A = op node_B
   \<and> num_outputs node_A = num_outputs node_B
   \<and> Output_eq_unreached node_hash store_AB (Output 1 0) (Value 2 0) = Some True
   \<and> Output_eq node_hash store_AB (Output 1 0) (Value 2 0)
       = Some (Printf_Output_eq 17 17 0 0, False)"
  by (simp add: node_A_def node_B_def store_AB_def Node_explicit_def)

section \<open>Which hash a node takes as its own\<close>

text \<open>
  C2, as stated, fails. In a fresh process without the environment variable and with the
  flag unset, dynamic-shape mode is false; the derived-hash constructor run on a callback
  that gives 1 with sizes and 0 without yields a node whose \<open>node_hash\<close> is not its
  \<open>dag_hash_without_sizes\<close>; and the explicit-hash constructor given the hash 7 yields a
  node whose \<open>node_hash\<close> is neither of its two dag hashes.
\<close>

theorem node_hash_without_sizes_counterexample:
  "\<not> fst (enableDynamicShape (process_start Map.empty))
   \<and> node_hash (fst (Node_derived (Symbol ''add'') 1 sized_hash_fn no_metadata
                        (process_start Map.empty)))
       \<noteq> dag_hash_without_sizes
            (fst (Node_derived (Symbol ''add'') 1 sized_hash_fn no_metadata
                    (process_start Map.empty)))
   \<and> node_hash (fst (Node_explicit (Symbol ''add'') 1 7 sized_hash_fn no_metadata
                        (process_start Map.empty)))
       \<noteq> dag_hash_without_sizes
            (fst (Node_explicit (Symbol ''add'') 1 7 sized_hash_fn no_metadata
                    (process_start Map.empty)))
   \<and> node_hash (fst (Node_explicit (Symbol ''add'') 1 7 sized_hash_fn no_metadata
                        (process_start Map.empty)))
       \<noteq> dag_hash_with_sizes
            (fst (Node_explicit (Symbol ''add'') 1 7 sized_hash_fn no_metadata
                    (process_start Map.empty)))"
  by (simp add: Node_derived_def Node_explicit_def enableDynamicShape_def getenv_def
        process_start_def sized_hash_fn_def Let_def)

text \<open>
  C2, amended. A node built by the derived-hash constructor has \<open>node_hash\<close> equal to
  \<open>dag_hash_with_sizes\<close> when dynamic-shape mode is false at construction, and equal to
  \<open>dag_hash_without_sizes\<close> when it is true. A node built by the explicit-hash
  constructor has the hash the caller supplied as its \<open>node_hash\<close>, whatever the mode,
  and the callback's values at false and true as its two dag hashes.
\<close>

theorem node_hash_binding:
  "(\<not> fst (enableDynamicShape s) \<longrightarrow>
      node_hash (fst (Node_derived opk n f md s))
        = dag_hash_with_sizes (fst (Node_derived opk n f md s)))
   \<and> (fst (enableDynamicShape s) \<longrightarrow>
      node_hash (fst (Node_derived opk n f md s))
        = dag_hash_without_sizes (fst (Node_derived opk n f md s)))
   \<and> node_hash (fst (Node_explicit opk n h f md s)) = h
   \<and> dag_hash_without_sizes (fst (Node_explicit opk n h f md s)) = f False
   \<and> dag_hash_with_sizes (fst (Node_explicit opk n h f md s)) = f True"
  by (simp add: Node_derived_def Node_explicit_def split: prod.splits)

theorem node_hash_binding_witness:
  "\<not> fst (enableDynamicShape (process_start Map.empty))
   \<and> node_hash (fst (Node_derived (Symbol ''add'') 1 sized_hash_fn no_metadata
                        (process_start Map.empty))) = 1
   \<and> dag_hash_with_sizes (fst (Node_derived (Symbol ''add'') 1 sized_hash_fn no_metadata
                        (process_start Map.empty))) = 1
   \<and> fst (enableDynamicShape (process_start [''LTC_ENABLE_DYNAMIC_SHAPES'' \<mapsto> ''1'']))
   \<and> node_hash (fst (Node_derived (Symbol ''add'') 1 sized_hash_fn no_metadata
                        (process_start [''LTC_ENABLE_DYNAMIC_SHAPES'' \<mapsto> ''1'']))) = 0
   \<and> dag_hash_without_sizes
         (fst (Node_derived (Symbol ''add'') 1 sized_hash_fn no_metadata
                        (process_start [''LTC_ENABLE_DYNAMIC_SHAPES'' \<mapsto> ''1'']))) = 0"
proof -
  have off: "\<not> fst (enableDynamicShape (process_start Map.empty))"
    by (simp add: enableDynamicShape_def getenv_def process_start_def Let_def)
  have on: "fst (enableDynamicShape (process_start [''LTC_ENABLE_DYNAMIC_SHAPES'' \<mapsto> ''1'']))"
    by (simp add: enableDynamicShape_def getenv_def process_start_def Let_def)
  have w: "dag_hash_with_sizes (fst (Node_derived (Symbol ''add'') 1 sized_hash_fn no_metadata
                        (process_start Map.empty))) = 1"
    by (simp add: Node_derived_def sized_hash_fn_def split: prod.splits)
  have wo: "dag_hash_without_sizes
         (fst (Node_derived (Symbol ''add'') 1 sized_hash_fn no_metadata
                        (process_start [''LTC_ENABLE_DYNAMIC_SHAPES'' \<mapsto> ''1'']))) = 0"
    by (simp add: Node_derived_def sized_hash_fn_def split: prod.splits)
  from off on w wo
    node_hash_binding [of "process_start Map.empty" "Symbol ''add''" 1 sized_hash_fn
      no_metadata 0]
    node_hash_binding [of "process_start [''LTC_ENABLE_DYNAMIC_SHAPES'' \<mapsto> ''1'']"
      "Symbol ''add''" 1 sized_hash_fn no_metadata 0]
  show ?thesis by simp
qed

text \<open>
  C8. Two nodes built by the derived-hash constructor from the same op, the same output
  count and the same pure hash callback, in two states of the process in which the
  dynamic-shape mode has the same value, agree on \<open>node_hash\<close>, on
  \<open>dag_hash_without_sizes\<close> and on \<open>dag_hash_with_sizes\<close>.
\<close>

theorem Node_derived_hashes_deterministic:
  assumes "fst (enableDynamicShape s1) = fst (enableDynamicShape s2)"
  shows "node_hash (fst (Node_derived opk n f md1 s1))
           = node_hash (fst (Node_derived opk n f md2 s2))
         \<and> dag_hash_without_sizes (fst (Node_derived opk n f md1 s1))
           = dag_hash_without_sizes (fst (Node_derived opk n f md2 s2))
         \<and> dag_hash_with_sizes (fst (Node_derived opk n f md1 s1))
           = dag_hash_with_sizes (fst (Node_derived opk n f md2 s2))"
  using assms by (simp add: Node_derived_def case_prod_beta)

theorem Node_derived_hashes_deterministic_witness:
  "fst (enableDynamicShape (process_start Map.empty))
     = fst (enableDynamicShape (PushIntoNodeList 1 (process_start [''HOME'' \<mapsto> ''/root''])))
   \<and> node_hash (fst (Node_derived (Symbol ''add'') 1 sized_hash_fn no_metadata
                        (process_start Map.empty)))
     = node_hash (fst (Node_derived (Symbol ''add'') 1 sized_hash_fn
                        \<lparr>scope = ''layer1'', frame_info = []\<rparr>
                        (PushIntoNodeList 1 (process_start [''HOME'' \<mapsto> ''/root'']))))
   \<and> node_list_index (fst (Node_derived (Symbol ''add'') 1 sized_hash_fn no_metadata
                        (process_start Map.empty)))
     \<noteq> node_list_index (fst (Node_derived (Symbol ''add'') 1 sized_hash_fn
                        \<lparr>scope = ''layer1'', frame_info = []\<rparr>
                        (PushIntoNodeList 1 (process_start [''HOME'' \<mapsto> ''/root'']))))"
proof -
  have same: "fst (enableDynamicShape (process_start Map.empty))
     = fst (enableDynamicShape (PushIntoNodeList 1 (process_start [''HOME'' \<mapsto> ''/root''])))"
    by (simp add: enableDynamicShape_def getenv_def process_start_def PushIntoNodeList_def
          Let_def)
  have idx: "node_list_index (fst (Node_derived (Symbol ''add'') 1 sized_hash_fn no_metadata
                        (process_start Map.empty)))
     \<noteq> node_list_index (fst (Node_derived (Symbol ''add'') 1 sized_hash_fn
                        \<lparr>scope = ''layer1'', frame_info = []\<rparr>
                        (PushIntoNodeList 1 (process_start [''HOME'' \<mapsto> ''/root'']))))"
    by (simp add: Node_derived_def enableDynamicShape_def process_start_def
          PushIntoNodeList_def NextNodeListIndex_def Let_def)
  from same idx Node_derived_hashes_deterministic [OF same, of "Symbol ''add''" 1
      sized_hash_fn no_metadata "\<lparr>scope = ''layer1'', frame_info = []\<rparr>"]
  show ?thesis by simp
qed

section \<open>Flushing the node list\<close>

text \<open>
  C4. \<open>ClearNodeList\<close> moves the current buffer into \<open>last_node_list\<close>, dropping what
  \<open>last_node_list\<close> held, and leaves the current buffer empty; it touches nothing else.
  So a flush of an empty current buffer leaves \<open>last_node_list\<close> empty, and after two
  flushes in a row \<open>last_node_list\<close> is empty.
\<close>

theorem ClearNodeList_moves_current_to_last:
  "ClearNodeList s = s\<lparr>last_node_list := node_list s, node_list := []\<rparr>
   \<and> last_node_list (ClearNodeList s) = node_list s
   \<and> node_list (ClearNodeList s) = []
   \<and> last_node_list (ClearNodeList (s\<lparr>node_list := []\<rparr>)) = []
   \<and> node_list (ClearNodeList (s\<lparr>node_list := []\<rparr>)) = []
   \<and> last_node_list (ClearNodeList (ClearNodeList s)) = []
   \<and> node_list (ClearNodeList (ClearNodeList s)) = []"
  by (simp add: ClearNodeList_def Let_def)

section \<open>The trace index\<close>

text \<open>
  C3, as stated, fails. Running the two constructors one after the other in a fresh
  process, and nothing else, gives both nodes the trace index 0 and leaves the current
  buffer empty: a constructor reads the next index and does not append.
\<close>

theorem constructors_do_not_append_counterexample:
  "map node_list_index
       (fst (construct_only
               [Derived (Symbol ''add'') 1 sized_hash_fn no_metadata,
                Explicit (Symbol ''mul'') 1 7 sized_hash_fn no_metadata]
               (process_start Map.empty))) = [0, 0]
   \<and> map node_list_index
       (fst (construct_only
               [Derived (Symbol ''add'') 1 sized_hash_fn no_metadata,
                Explicit (Symbol ''mul'') 1 7 sized_hash_fn no_metadata]
               (process_start Map.empty))) \<noteq> map of_nat [0..<2]
   \<and> node_list
       (snd (construct_only
               [Derived (Symbol ''add'') 1 sized_hash_fn no_metadata,
                Explicit (Symbol ''mul'') 1 7 sized_hash_fn no_metadata]
               (process_start Map.empty))) = []"
  by (simp add: Node_derived_def Node_explicit_def enableDynamicShape_def getenv_def
        NextNodeListIndex_def process_start_def Let_def upt_rec)

text \<open>
  C3, amended. A constructor of either form sets the node's trace index to the buffer's
  next-index counter (the length of the current buffer) and leaves the buffer as it is;
  appending is the separate operation \<open>PushIntoNodeList\<close>. When the session starts from
  an empty current buffer and every constructed node is pushed before the next one is
  constructed, with no flush in between, the trace indices of the N nodes are
  0, 1, .., N-1 in construction order, and the buffer holds their handles in that order.
\<close>

theorem trace_index_sequence:
  "node_list_index (fst (construct a s)) = NextNodeListIndex s
   \<and> node_list (snd (construct a s)) = node_list s
   \<and> (node_list s = [] \<longrightarrow>
        map node_list_index (fst (construct_and_push reqs s)) = map of_nat [0..<length reqs]
        \<and> node_list (snd (construct_and_push reqs s)) = map snd reqs)
   \<and> (node_list s = [] \<and> length reqs \<le> 2 ^ 64 \<longrightarrow>
        map unat (map node_list_index (fst (construct_and_push reqs s)))
          = [0..<length reqs])"
proof -
  have one: "node_list_index (fst (construct a s)) = NextNodeListIndex s"
    by (simp add: construct_index NextNodeListIndex_def)
  have two: "node_list (snd (construct a s)) = node_list s"
    by (rule construct_node_list)
  have three: "map node_list_index (fst (construct_and_push reqs s))
                 = map of_nat [0..<length reqs]
               \<and> node_list (snd (construct_and_push reqs s)) = map snd reqs"
    if "node_list s = []"
    using construct_and_push_trace [of reqs s] that by simp
  have four: "map unat (map node_list_index (fst (construct_and_push reqs s)))
                = [0..<length reqs]"
    if "node_list s = []" and "length reqs \<le> 2 ^ 64"
    using three [OF that(1)] unat_of_nat_upt [OF that(2)] by simp
  from one two three four show ?thesis by blast
qed

theorem trace_index_sequence_witness:
  "node_list (process_start Map.empty) = []
   \<and> map node_list_index
       (fst (construct_and_push
               [(Derived (Symbol ''add'') 1 sized_hash_fn no_metadata, 5),
                (Explicit (Symbol ''mul'') 1 7 sized_hash_fn no_metadata, 9),
                (Derived (Symbol ''neg'') 1 sized_hash_fn no_metadata, 4)]
               (process_start Map.empty))) = [0, 1, 2]
   \<and> node_list
       (snd (construct_and_push
               [(Derived (Symbol ''add'') 1 sized_hash_fn no_metadata, 5),
                (Explicit (Symbol ''mul'') 1 7 sized_hash_fn no_metadata, 9),
                (Derived (Symbol ''neg'') 1 sized_hash_fn no_metadata, 4)]
               (process_start Map.empty))) = [5, 9, 4]"
proof -
  have e: "node_list (process_start Map.empty) = []"
    by (simp add: process_start_def)
  have u: "map of_nat [0..<3] = [0, 1, 2 :: size_t]"
    by (simp add: upt_rec)
  from e u trace_index_sequence [of
      "Derived (Symbol ''add'') 1 sized_hash_fn no_metadata" "process_start Map.empty"
      "[(Derived (Symbol ''add'') 1 sized_hash_fn no_metadata, 5),
        (Explicit (Symbol ''mul'') 1 7 sized_hash_fn no_metadata, 9),
        (Derived (Symbol ''neg'') 1 sized_hash_fn no_metadata, 4)]"]
  show ?thesis by simp
qed

section \<open>The dynamic-shape switch over the life of the process\<close>

text \<open>
  C6. Let the first call of \<open>enableDynamicShape\<close> be made in state \<open>s\<close>. That call, and
  every later call after any sequence of events of the process, returns true exactly
  when the environment variable was present in \<open>s\<close> (whatever its value) or the flag is
  set at the time of the call. In particular, when the variable was present in \<open>s\<close>,
  every later call returns true, whatever the flag is.
\<close>

theorem enableDynamicShape_env_or_flag:
  assumes "enabled s = None"
  shows "fst (enableDynamicShape s)
           = (environ s ''LTC_ENABLE_DYNAMIC_SHAPES'' \<noteq> None
              \<or> FLAGS_ltc_enable_dynamic_shapes s)
         \<and> fst (enableDynamicShape (run es (snd (enableDynamicShape s))))
           = (environ s ''LTC_ENABLE_DYNAMIC_SHAPES'' \<noteq> None
              \<or> FLAGS_ltc_enable_dynamic_shapes (run es (snd (enableDynamicShape s))))
         \<and> (environ s ''LTC_ENABLE_DYNAMIC_SHAPES'' \<noteq> None
              \<longrightarrow> fst (enableDynamicShape s)
                \<and> fst (enableDynamicShape (run es (snd (enableDynamicShape s)))))"
proof -
  let ?p = "environ s ''LTC_ENABLE_DYNAMIC_SHAPES'' \<noteq> None"
  let ?s1 = "snd (enableDynamicShape s)"
  have first: "fst (enableDynamicShape s) = (?p \<or> FLAGS_ltc_enable_dynamic_shapes s)"
    using assms by (simp add: enableDynamicShape_def getenv_def Let_def)
  have "enabled ?s1 = Some ?p"
    using assms by (simp add: enableDynamicShape_enabled)
  then have "enabled (run es ?s1) = Some ?p"
    by (rule run_keeps_enabled)
  then have later: "fst (enableDynamicShape (run es ?s1))
      = (?p \<or> FLAGS_ltc_enable_dynamic_shapes (run es ?s1))"
    by (rule enableDynamicShape_result)
  from first later show ?thesis by simp
qed

theorem enableDynamicShape_env_or_flag_witness:
  "enabled (process_start [''LTC_ENABLE_DYNAMIC_SHAPES'' \<mapsto> '''']) = None
   \<and> \<not> FLAGS_ltc_enable_dynamic_shapes
         (run [Unsetenv ''LTC_ENABLE_DYNAMIC_SHAPES'', SetFlag False,
               Construct (Derived (Symbol ''add'') 1 sized_hash_fn no_metadata),
               Push 1, Clear, CallEnableDynamicShape]
            (snd (enableDynamicShape
                    (process_start [''LTC_ENABLE_DYNAMIC_SHAPES'' \<mapsto> '''']))))
   \<and> fst (enableDynamicShape
         (run [Unsetenv ''LTC_ENABLE_DYNAMIC_SHAPES'', SetFlag False,
               Construct (Derived (Symbol ''add'') 1 sized_hash_fn no_metadata),
               Push 1, Clear, CallEnableDynamicShape]
            (snd (enableDynamicShape
                    (process_start [''LTC_ENABLE_DYNAMIC_SHAPES'' \<mapsto> ''''])))))"
proof -
  have h: "enabled (process_start [''LTC_ENABLE_DYNAMIC_SHAPES'' \<mapsto> '''']) = None"
    by (simp add: process_start_def)
  have p: "environ (process_start [''LTC_ENABLE_DYNAMIC_SHAPES'' \<mapsto> ''''])
             ''LTC_ENABLE_DYNAMIC_SHAPES'' \<noteq> None"
    by (simp add: process_start_def)
  have f: "\<not> FLAGS_ltc_enable_dynamic_shapes
         (run [Unsetenv ''LTC_ENABLE_DYNAMIC_SHAPES'', SetFlag False,
               Construct (Derived (Symbol ''add'') 1 sized_hash_fn no_metadata),
               Push 1, Clear, CallEnableDynamicShape]
            (snd (enableDynamicShape
                    (process_start [''LTC_ENABLE_DYNAMIC_SHAPES'' \<mapsto> '''']))))"
    by (simp add: process_start_def enableDynamicShape_def getenv_def Node_derived_def
          PushIntoNodeList_def ClearNodeList_def Let_def)
  from h p f enableDynamicShape_env_or_flag [OF h, of
      "[Unsetenv ''LTC_ENABLE_DYNAMIC_SHAPES'', SetFlag False,
        Construct (Derived (Symbol ''add'') 1 sized_hash_fn no_metadata),
        Push 1, Clear, CallEnableDynamicShape]"]
  show ?thesis by blast
qed

text \<open>
  C9. When the environment variable is absent in the state \<open>s\<close> of the first call of
  \<open>enableDynamicShape\<close>, that call and every later call, after any sequence of events
  (among them defining the variable), returns true exactly when the flag is set at the
  time of the call.
\<close>

theorem enableDynamicShape_absent_env_is_permanent:
  assumes "enabled s = None"
    and "environ s ''LTC_ENABLE_DYNAMIC_SHAPES'' = None"
  shows "fst (enableDynamicShape s) = FLAGS_ltc_enable_dynamic_shapes s
         \<and> fst (enableDynamicShape (run es (snd (enableDynamicShape s))))
           = FLAGS_ltc_enable_dynamic_shapes (run es (snd (enableDynamicShape s)))"
proof -
  let ?s1 = "snd (enableDynamicShape s)"
  have first: "fst (enableDynamicShape s) = FLAGS_ltc_enable_dynamic_shapes s"
    using assms by (simp add: enableDynamicShape_def getenv_def Let_def)
  have "enabled ?s1 = Some False"
    using assms by (simp add: enableDynamicShape_enabled)
  then have "enabled (run es ?s1) = Some False"
    by (rule run_keeps_enabled)
  then have "fst (enableDynamicShape (run es ?s1))
      = (False \<or> FLAGS_ltc_enable_dynamic_shapes (run es ?s1))"
    by (rule enableDynamicShape_result)
  with first show ?thesis by simp
qed

theorem enableDynamicShape_absent_env_is_permanent_witness:
  "enabled (process_start Map.empty) = None
   \<and> environ (process_start Map.empty) ''LTC_ENABLE_DYNAMIC_SHAPES'' = None
   \<and> environ (run [Setenv ''LTC_ENABLE_DYNAMIC_SHAPES'' ''1'']
                 (snd (enableDynamicShape (process_start Map.empty))))
       ''LTC_ENABLE_DYNAMIC_SHAPES'' = Some ''1''
   \<and> \<not> fst (enableDynamicShape
             (run [Setenv ''LTC_ENABLE_DYNAMIC_SHAPES'' ''1'']
                (snd (enableDynamicShape (process_start Map.empty)))))
   \<and> fst (enableDynamicShape
             (run [Setenv ''LTC_ENABLE_DYNAMIC_SHAPES'' ''1'', SetFlag True]
                (snd (enableDynamicShape (process_start Map.empty)))))"
proof -
  have h1: "enabled (process_start Map.empty) = None"
    by (simp add: process_start_def)
  have h2: "environ (process_start Map.empty) ''LTC_ENABLE_DYNAMIC_SHAPES'' = None"
    by (simp add: process_start_def)
  have e: "environ (run [Setenv ''LTC_ENABLE_DYNAMIC_SHAPES'' ''1'']
                 (snd (enableDynamicShape (process_start Map.empty))))
       ''LTC_ENABLE_DYNAMIC_SHAPES'' = Some ''1''"
    by (simp add: enableDynamicShape_def Let_def)
  have f1: "\<not> FLAGS_ltc_enable_dynamic_shapes
              (run [Setenv ''LTC_ENABLE_DYNAMIC_SHAPES'' ''1'']
                 (snd (enableDynamicShape (process_start Map.empty))))"
    by (simp add: enableDynamicShape_def process_start_def Let_def)
  have f2: "FLAGS_ltc_enable_dynamic_shapes
              (run [Setenv ''LTC_ENABLE_DYNAMIC_SHAPES'' ''1'', SetFlag True]
                 (snd (enableDynamicShape (process_start Map.empty))))"
    by (simp add: enableDynamicShape_def process_start_def Let_def)
  from h1 h2 e f1 f2
    enableDynamicShape_absent_env_is_permanent [OF h1 h2, of
      "[Setenv ''LTC_ENABLE_DYNAMIC_SHAPES'' ''1'']"]
    enableDynamicShape_absent_env_is_permanent [OF h1 h2, of
      "[Setenv ''LTC_ENABLE_DYNAMIC_SHAPES'' ''1'', SetFlag True]"]
  show ?thesis by blast
qed

section \<open>Edge hashes\<close>

text \<open>
  C7. For a node at an address and an index \<open>i\<close>, the \<open>Output\<close> and the \<open>Value\<close> that refer
  to that node with that index have the same hash: each is \<open>HashCombine\<close> of the node's
  hash with \<open>Hash i\<close>.
\<close>

theorem Output_hash_eq_Value_hash:
  "Output_hash HashCombine Hash Node_hash st (Output p i)
     = Value_hash HashCombine Hash Node_hash st (Value p i)
   \<and> (st p = Some n \<longrightarrow>
        Output_hash HashCombine Hash Node_hash st (Output p i)
          = Some (HashCombine (Node_hash n) (Hash i))
        \<and> Value_hash HashCombine Hash Node_hash st (Value p i)
          = Some (HashCombine (Node_hash n) (Hash i)))"
  by simp

theorem Output_hash_eq_Value_hash_witness:
  "store_AB 2 = Some node_B
   \<and> Output_hash (\<lambda>a b. 31 * a + b) ucast node_hash store_AB (Output 2 3)
       = Some (31 * node_hash node_B + 3)
   \<and> Value_hash (\<lambda>a b. 31 * a + b) ucast node_hash store_AB (Value 2 3)
       = Some (31 * node_hash node_B + 3)"
proof -
  have h: "store_AB 2 = Some node_B"
    by (simp add: store_AB_def)
  from h Output_hash_eq_Value_hash [of "\<lambda>a b. 31 * a + b" ucast node_hash store_AB 2 3 node_B]
  show ?thesis by simp
qed

section \<open>The nested flash-attention backward entry point\<close>

text \<open>
  C5. When \<open>grad_out\<close> is undefined, the entry point returns three undefined tensors and
  makes no call at all: neither the preprocessing (packing) nor the dense backward
  kernel is invoked.
\<close>

theorem backward_nested_undefined_grad_short_circuit:
  assumes "\<not> defined grad_out"
  shows "scaled_dot_product_flash_attention_backward_nested preproc flash postproc
           grad_out query key val out logsumexp cum_q cum_k max_q max_k
           dropout_p is_causal philox_seed philox_offset scale
         = ([], Inr (UndefinedTensor, UndefinedTensor, UndefinedTensor))"
  using assms by (simp add: scaled_dot_product_flash_attention_backward_nested_def)

theorem backward_nested_undefined_grad_short_circuit_witness:
  "\<not> defined UndefinedTensor
   \<and> scaled_dot_product_flash_attention_backward_nested pack_stub kernel_stub unpack_stub
       UndefinedTensor (TensorImpl 2) (TensorImpl 3) (TensorImpl 4) (TensorImpl 5)
       (TensorImpl 6) (TensorImpl 7) (TensorImpl 8) 9 10 11 True 12 13 (Some 14)
     = ([], Inr (UndefinedTensor, UndefinedTensor, UndefinedTensor))"
proof -
  have h: "\<not> defined UndefinedTensor" by simp
  from h backward_nested_undefined_grad_short_circuit [OF h, of pack_stub kernel_stub
      unpack_stub "TensorImpl 2" "TensorImpl 3" "TensorImpl 4" "TensorImpl 5" "TensorImpl 6"
      "TensorImpl 7" "TensorImpl 8" 9 10 11 True 12 13 "Some 14"]
  show ?thesis by simp
qed

text \<open>
  C10. When \<open>grad_out\<close> is defined and the preprocessing returns, the preprocessing is
  called once, with \<open>grad_out\<close>, query, key, value, the forward output, the two
  cumulative-sequence-length tensors and the two maximum sequence lengths; and the dense
  backward kernel is called once, with the five tensors the preprocessing returned and
  with logsumexp, both cumulative-sequence-length tensors, both maximum sequence lengths,
  the dropout probability, the causal flag, the philox seed and offset and the scale
  exactly as the entry point received them. The entry point's result is what the kernel
  gives on exactly these arguments: its exception if it throws, and otherwise what the
  postprocessing makes of query, key, value and the kernel's three gradients.
\<close>

theorem backward_nested_forwards_arguments:
  assumes "defined grad_out"
    and "preproc grad_out query key val out cum_q cum_k max_q max_k
           = Inr (grad_out', query', key', val', out')"
  shows "filter is_kernel_call
           (fst (scaled_dot_product_flash_attention_backward_nested preproc flash postproc
                   grad_out query key val out logsumexp cum_q cum_k max_q max_k
                   dropout_p is_causal philox_seed philox_offset scale))
         = [Call_flash_attention_backward grad_out' query' key' val' out' logsumexp
              cum_q cum_k max_q max_k dropout_p is_causal philox_seed philox_offset scale]
         \<and> filter is_preprocessing_call
           (fst (scaled_dot_product_flash_attention_backward_nested preproc flash postproc
                   grad_out query key val out logsumexp cum_q cum_k max_q max_k
                   dropout_p is_causal philox_seed philox_offset scale))
         = [Call_sdpa_nested_preprocessing_backward grad_out query key val out
              cum_q cum_k max_q max_k]
         \<and> snd (scaled_dot_product_flash_attention_backward_nested preproc flash postproc
                   grad_out query key val out logsumexp cum_q cum_k max_q max_k
                   dropout_p is_causal philox_seed philox_offset scale)
         = (case flash grad_out' query' key' val' out' logsumexp cum_q cum_k max_q max_k
                   dropout_p is_causal philox_seed philox_offset scale of
              Inl e \<Rightarrow> Inl e
            | Inr (grad_q, grad_k, grad_v) \<Rightarrow> postproc query key val grad_q grad_k grad_v)"
  using assms
  by (simp add: scaled_dot_product_flash_attention_backward_nested_def Let_def
        split: sum.splits prod.splits)

theorem backward_nested_forwards_arguments_witness:
  "defined (TensorImpl 1)
   \<and> filter is_kernel_call
       (fst (scaled_dot_product_flash_attention_backward_nested pack_stub strict_kernel_stub
               unpack_echo
               (TensorImpl 1) (TensorImpl 2) (TensorImpl 3) (TensorImpl 4) (TensorImpl 5)
               (TensorImpl 6) (TensorImpl 7) (TensorImpl 8) 9 10 11 True 12 13 (Some 14)))
     = [Call_flash_attention_backward
          (TensorImpl 10) (TensorImpl 11) (TensorImpl 12) (TensorImpl 13) (TensorImpl 14)
          (TensorImpl 6) (TensorImpl 7) (TensorImpl 8) 9 10 11 True 12 13 (Some 14)]
   \<and> snd (scaled_dot_product_flash_attention_backward_nested pack_stub strict_kernel_stub
               unpack_echo
               (TensorImpl 1) (TensorImpl 2) (TensorImpl 3) (TensorImpl 4) (TensorImpl 5)
               (TensorImpl 6) (TensorImpl 7) (TensorImpl 8) 9 10 11 True 12 13 (Some 14))
     = Inr (TensorImpl 20, TensorImpl 21, TensorImpl 22)"
proof -
  have h1: "defined (TensorImpl 1)" by simp
  have h2: "pack_stub (TensorImpl 1) (TensorImpl 2) (TensorImpl 3) (TensorImpl 4)
              (TensorImpl 5) (TensorImpl 7) (TensorImpl 8) 9 10
            = Inr (TensorImpl 10, TensorImpl 11, TensorImpl 12, TensorImpl 13, TensorImpl 14)"
    by (simp add: pack_stub_def)
  have k: "strict_kernel_stub (TensorImpl 10) (TensorImpl 11) (TensorImpl 12)
             (TensorImpl 13) (TensorImpl 14) (TensorImpl 6) (TensorImpl 7) (TensorImpl 8)
             9 10 11 True 12 13 (Some 14)
           = Inr (TensorImpl 20, TensorImpl 21, TensorImpl 22)"
    by (simp add: strict_kernel_stub_def)
  from h1 h2 k backward_nested_forwards_arguments [where preproc = pack_stub
      and flash = strict_kernel_stub and postproc = unpack_echo
      and grad_out = "TensorImpl 1" and query = "TensorImpl 2" and key = "TensorImpl 3"
      and val = "TensorImpl 4" and out = "TensorImpl 5" and logsumexp = "TensorImpl 6"
      and cum_q = "TensorImpl 7" and cum_k = "TensorImpl 8" and max_q = 9 and max_k = 10
      and dropout_p = 11 and is_causal = True and philox_seed = 12 and philox_offset = 13
      and scale = "Some 14"
      and grad_out' = "TensorImpl 10" and query' = "TensorImpl 11"
      and key' = "TensorImpl 12" and val' = "TensorImpl 13" and out' = "TensorImpl 14"]
  show ?thesis by (simp add: unpack_echo_def)
qed

end
